theory Spec2Isabelle
  imports Main "HOL-Library.Sublist"
begin

section \<open>Strings\<close>

text \<open>
  Python's \<open>str\<close> is a sequence of code points. The embedding uses \<^typ>\<open>string\<close>
  and reads each \<^typ>\<open>char\<close> as one code point below 256, so \<open>length\<close>, slicing and
  \<open>in\<close> count what Python counts on such strings. The character classes below
  (\<open>str.lower\<close>, \<open>str.isspace\<close>, \<open>str.isprintable\<close>) are Python's on that range.
\<close>

definition code :: "char \<Rightarrow> nat" where
  "code c = of_char c"

definition is_upper :: "char \<Rightarrow> bool" where
  "is_upper c = ((65 \<le> code c \<and> code c \<le> 90) \<or> (192 \<le> code c \<and> code c \<le> 214)
                 \<or> (216 \<le> code c \<and> code c \<le> 222))"

definition lower_char :: "char \<Rightarrow> char" where
  "lower_char c = (if is_upper c then char_of (code c + 32) else c)"

text \<open>\<open>s.lower()\<close>\<close>

definition lower :: "string \<Rightarrow> string" where
  "lower s = map lower_char s"

text \<open>\<open>s.startswith(p)\<close>, used to unfold \<open>p in s\<close>.\<close>

fun startswith :: "string \<Rightarrow> string \<Rightarrow> bool" where
  "startswith s [] = True"
| "startswith [] (p # ps) = False"
| "startswith (c # cs) (p # ps) = (c = p \<and> startswith cs ps)"

text \<open>\<open>p in s\<close> for two strings: \<open>p\<close> occurs in \<open>s\<close> as a contiguous run.\<close>

fun str_in :: "string \<Rightarrow> string \<Rightarrow> bool" where
  "str_in p [] = (p = [])"
| "str_in p (c # cs) = (startswith (c # cs) p \<or> str_in p cs)"

section \<open>The request filter\<close>

text \<open>
  \<open>SimpleAdblockInterceptor\<close>: the object holds one attribute, \<open>patterns\<close>. The
  constructor's argument is \<open>None\<close> or a list; \<open>patterns or [...]\<close> takes the built-in
  list for \<open>None\<close> and for the empty list.
\<close>

record interceptor =
  patterns :: "string list"

definition default_patterns :: "string list" where
  "default_patterns =
     [''doubleclick.net'', ''googlesyndication'', ''adservice.google.'',
      ''pagead2.googlesyndication.com'', ''/ads?'', ''/adserver'', ''.ads.'', ''ads.'',
      ''advert'', ''adclick'', ''tracking'', ''analytics.js'', ''googletagservices'',
      ''adsystem'']"

definition py_or :: "string list option \<Rightarrow> string list \<Rightarrow> string list" where
  "py_or a d = (case a of None \<Rightarrow> d | Some xs \<Rightarrow> if xs = [] then d else xs)"

definition interceptor_init :: "string list option \<Rightarrow> interceptor" where
  "interceptor_init ps = \<lparr>patterns = map lower (py_or ps default_patterns)\<rparr>"

text \<open>
  \<open>interceptRequest\<close>: the loop returns at the first pattern found in the lowercased
  URL, after calling \<open>info.block(True)\<close>; an exception of that call is swallowed. The
  result is whether the block was requested.
\<close>

fun block_loop :: "string list \<Rightarrow> string \<Rightarrow> bool" where
  "block_loop [] url = False"
| "block_loop (p # ps) url = (if str_in p url then True else block_loop ps url)"

definition interceptRequest :: "interceptor \<Rightarrow> string \<Rightarrow> bool" where
  "interceptRequest f u = block_loop (patterns f) (lower u)"

section \<open>The settings store and the window's ad-block state\<close>

text \<open>
  \<open>QSettings\<close> is an opaque dictionary; the two keys the ad-block code reads are
  fields here, \<open>None\<close> for a key never written. \<open>value(key, default)\<close> gives the
  default for an absent key.
\<close>

record settings =
  adblock_enabled_key :: "bool option"
  adblock_patterns_key :: "string list option"

definition value_enabled :: "settings \<Rightarrow> bool" where
  "value_enabled s = (case adblock_enabled_key s of None \<Rightarrow> True | Some b \<Rightarrow> b)"

definition value_patterns :: "settings \<Rightarrow> string list" where
  "value_patterns s = (case adblock_patterns_key s of None \<Rightarrow> [] | Some ps \<Rightarrow> ps)"

record window =
  store :: settings
  adblock_enabled :: bool
  adblock_interceptor :: interceptor

text \<open>The ad-block part of \<open>MainWindow.__init__\<close>.\<close>

definition window_init :: "settings \<Rightarrow> window" where
  "window_init s =
     (let saved_patterns = value_patterns s;
          ps = (if saved_patterns \<noteq> [] then Some saved_patterns else None)
      in \<lparr>store = s, adblock_enabled = value_enabled s,
          adblock_interceptor = interceptor_init ps\<rparr>)"

text \<open>\<open>MainWindow.toggle_adblock\<close>\<close>

definition toggle_adblock :: "window \<Rightarrow> window" where
  "toggle_adblock w =
     (let en = \<not> adblock_enabled w;
          s = (store w)\<lparr>adblock_enabled_key := Some en\<rparr>;
          w1 = w\<lparr>adblock_enabled := en, store := s\<rparr>
      in if \<not> en then w1\<lparr>adblock_interceptor := (adblock_interceptor w1)\<lparr>patterns := []\<rparr>\<rparr>
         else let saved_patterns = value_patterns s
              in if saved_patterns \<noteq> []
                 then w1\<lparr>adblock_interceptor := (adblock_interceptor w1)\<lparr>patterns := saved_patterns\<rparr>\<rparr>
                 else w1)"

text \<open>The ad-block part of \<open>MainWindow.closeEvent\<close>: the active list is written back.\<close>

definition closeEvent :: "window \<Rightarrow> settings" where
  "closeEvent w = (store w)\<lparr>adblock_patterns_key := Some (patterns (adblock_interceptor w))\<rparr>"

definition empty_settings :: settings where
  "empty_settings = \<lparr>adblock_enabled_key = None, adblock_patterns_key = None\<rparr>"

section \<open>Bookmarks\<close>

text \<open>
  An item of the bookmark list widget: its text and the string kept under
  \<open>Qt.UserRole\<close>. Both places that create an item (\<open>_load_bookmarks\<close>,
  \<open>add_bookmark_for_current\<close>) set the data to a string, so \<open>item.data(...) or ""\<close>
  is that string. The store holds a list of strings under \<open>bookmarks/list\<close>, so
  \<open>isinstance(entry, str)\<close> holds of every entry.
\<close>

record item =
  item_text :: string
  item_data :: string


text \<open>
  \<open>title, url = entry.split("|", 1)\<close> under the guard \<open>"|" in entry\<close>: the part
  before the first bar and the part after it.
\<close>

definition split_bar :: "string \<Rightarrow> string \<times> string" where
  "split_bar e = (takeWhile (\<lambda>c. c \<noteq> CHR ''|'') e, tl (dropWhile (\<lambda>c. c \<noteq> CHR ''|'') e))"

definition load_entry :: "string \<Rightarrow> item" where
  "load_entry e =
     (if str_in ''|'' e
      then (case split_bar e of (title, url) \<Rightarrow> \<lparr>item_text = title, item_data = url\<rparr>)
      else \<lparr>item_text = e, item_data = e\<rparr>)"

text \<open>\<open>_load_bookmarks\<close>: the list is cleared, then one item is added per entry.\<close>

fun load_loop :: "item list \<Rightarrow> string list \<Rightarrow> item list" where
  "load_loop bookmark_list [] = bookmark_list"
| "load_loop bookmark_list (e # raw) = load_loop (bookmark_list @ [load_entry e]) raw"





section \<open>Extensions\<close>

text \<open>
  What \<open>json.load\<close> can return. Numbers are the integers; a manifest with a
  fractional number is outside the model.
\<close>

datatype jvalue =
  JNull | JBool bool | JNum int | JStr string | JList "jvalue list" | JDict "(string \<times> jvalue) list"

text \<open>
  A file of a bundle directory as the scan meets it: not there (\<open>exists()\<close> is false),
  there but raising inside the \<open>try\<close> (the open, the read, the decoding or the JSON
  parse), or read to a value.
\<close>

datatype 'a file_state = Absent | Raises | Content 'a

text \<open>One entry of \<open>ext_dir.iterdir()\<close>.\<close>

record dir_entry =
  is_dir :: bool
  name :: string
  manifest_json :: "jvalue file_state"
  content_js_file :: "string file_state"
  styles_css_file :: "string file_state"

text \<open>The dictionary \<open>entry\<close>: \<open>None\<close> is a key that was not set.\<close>

record ext_entry =
  manifest :: jvalue
  content_js :: "string option"
  styles_css :: "string option"

datatype py_error = AttributeError | TypeError

text \<open>
  \<open>manifest.get("name", ext_name)\<close>: only a dict has \<open>get\<close>. The pairs of a
  \<open>JDict\<close> are the items of the parsed dict, a key's value being its first pair.
\<close>

fun manifest_get :: "jvalue \<Rightarrow> string \<Rightarrow> jvalue \<Rightarrow> py_error + jvalue" where
  "manifest_get (JDict kvs) k d = Inr (case map_of kvs k of None \<Rightarrow> d | Some v \<Rightarrow> v)"
| "manifest_get j k d = Inl AttributeError"

text \<open>Dictionary keys: lists and dicts are unhashable; \<open>True == 1\<close> and \<open>False == 0\<close>.\<close>

fun hashable :: "jvalue \<Rightarrow> bool" where
  "hashable (JList xs) = False"
| "hashable (JDict kvs) = False"
| "hashable j = True"

fun key_eq :: "jvalue \<Rightarrow> jvalue \<Rightarrow> bool" where
  "key_eq (JBool b) (JNum n) = (n = (if b then 1 else 0))"
| "key_eq (JNum n) (JBool b) = (n = (if b then 1 else 0))"
| "key_eq a b = (a = b)"

text \<open>
  \<open>self.extensions\<close> in insertion order. \<open>d[k] = v\<close> on a key already there replaces
  the value and keeps the key and its place.
\<close>

type_synonym catalog = "(jvalue \<times> ext_entry) list"

fun dict_set :: "catalog \<Rightarrow> jvalue \<Rightarrow> ext_entry \<Rightarrow> catalog" where
  "dict_set [] k v = [(k, v)]"
| "dict_set ((k', v') # d) k v =
     (if key_eq k' k then (k', v) # d else (k', v') # dict_set d k v)"


text \<open>The manifest after the \<open>try\<close>: the parsed value, or the empty dict it started as.\<close>

definition read_manifest :: "jvalue file_state \<Rightarrow> jvalue" where
  "read_manifest f = (case f of Content j \<Rightarrow> j | Raises \<Rightarrow> JDict [] | Absent \<Rightarrow> JDict [])"

text \<open>The manifest and the resolved name of one directory.\<close>

definition resolve :: "dir_entry \<Rightarrow> py_error + (jvalue \<times> jvalue)" where
  "resolve sub =
     (case manifest_json sub of
        Absent \<Rightarrow> Inr (JDict [], JStr (name sub))
      | f \<Rightarrow> (let m = read_manifest f in
              case manifest_get m ''name'' (JStr (name sub)) of
                Inl e \<Rightarrow> Inl e
              | Inr n \<Rightarrow> Inr (m, n)))"

text \<open>A script or style file: a failed read sets the key to the empty string.\<close>

definition read_text :: "string file_state \<Rightarrow> string option" where
  "read_text f = (case f of Absent \<Rightarrow> None | Raises \<Rightarrow> Some [] | Content s \<Rightarrow> Some s)"

definition has_key :: "'a option \<Rightarrow> bool" where
  "has_key x = (case x of None \<Rightarrow> False | Some v \<Rightarrow> True)"

text \<open>The dictionary \<open>entry\<close> of a directory, once its manifest is settled.\<close>

definition build_entry :: "jvalue \<Rightarrow> dir_entry \<Rightarrow> ext_entry" where
  "build_entry m sub =
     \<lparr>manifest = m, content_js = read_text (content_js_file sub),
      styles_css = read_text (styles_css_file sub)\<rparr>"

text \<open>
  The body of the loop of \<open>_load_extensions\<close> for one directory entry. Storing under
  an unhashable name raises \<open>TypeError\<close>.
\<close>

definition load_one :: "catalog \<Rightarrow> dir_entry \<Rightarrow> py_error + catalog" where
  "load_one extensions sub =
     (if is_dir sub then
        (case resolve sub of
           Inl e \<Rightarrow> Inl e
         | Inr (m, ext_name) \<Rightarrow>
             (let entry = build_entry m sub
              in if has_key (content_js entry) \<or> has_key (styles_css entry)
                 then (if hashable ext_name then Inr (dict_set extensions ext_name entry)
                       else Inl TypeError)
                 else Inr extensions))
      else Inr extensions)"

fun load_loop_ext :: "catalog \<Rightarrow> dir_entry list \<Rightarrow> py_error + catalog" where
  "load_loop_ext extensions [] = Inr extensions"
| "load_loop_ext extensions (sub # subs) =
     (case load_one extensions sub of
        Inl e \<Rightarrow> Inl e
      | Inr extensions' \<Rightarrow> load_loop_ext extensions' subs)"


section \<open>Injection\<close>

text \<open>
  \<open>repr\<close> of a \<open>str\<close>, which \<open>%r\<close> formats with: double quotes when the string has
  a single quote and no double quote, single quotes otherwise; the quote and the
  backslash escaped, tab, newline and return by letter, every other unprintable
  character as \<open>\xhh\<close>.
\<close>

definition hexdigit :: "nat \<Rightarrow> char" where
  "hexdigit n = ''0123456789abcdef'' ! (n mod 16)"

definition is_printable :: "char \<Rightarrow> bool" where
  "is_printable c = ((32 \<le> code c \<and> code c < 127) \<or> (160 < code c \<and> code c < 173) \<or> 173 < code c)"

definition bslash :: char where
  "bslash = CHR 0x5C"

definition squote :: char where
  "squote = CHR 0x27"

definition dquote :: char where
  "dquote = CHR 0x22"

definition repr_char :: "char \<Rightarrow> char \<Rightarrow> string" where
  "repr_char quote c =
     (if c = quote \<or> c = bslash then [bslash, c]
      else if c = CHR 0x09 then [bslash, CHR ''t'']
      else if c = CHR 0x0A then [bslash, CHR ''n'']
      else if c = CHR 0x0D then [bslash, CHR ''r'']
      else if is_printable c then [c]
      else [bslash, CHR ''x'', hexdigit (code c div 16), hexdigit (code c mod 16)])"

definition repr_quote :: "string \<Rightarrow> char" where
  "repr_quote s = (if squote \<in> set s \<and> dquote \<notin> set s then dquote else squote)"

definition py_repr :: "string \<Rightarrow> string" where
  "py_repr s = (let quote = repr_quote s in [quote] @ concat (map (repr_char quote) s) @ [quote])"

definition css_script :: "string \<Rightarrow> string" where
  "css_script css =
     ''(function(){var style=document.createElement('style');style.textContent=''
     @ py_repr css @ '';document.head.appendChild(style);})();''"

text \<open>\<open>if css:\<close> on the result of \<open>ext.get(...)\<close>: a key that is set, to a non-empty string.\<close>

definition truthy :: "string option \<Rightarrow> bool" where
  "truthy x = (case x of None \<Rightarrow> False | Some s \<Rightarrow> s \<noteq> [])"

text \<open>
  \<open>_inject_extensions\<close>: the page's \<open>runJavaScript\<close> calls, in the order issued. The
  first loop runs over the values of the catalog for the style sheets, the second
  for the scripts.
\<close>

fun inject_css :: "string list \<Rightarrow> ext_entry list \<Rightarrow> string list" where
  "inject_css calls [] = calls"
| "inject_css calls (ext # exts) =
     (if truthy (styles_css ext)
      then inject_css (calls @ [css_script (the (styles_css ext))]) exts
      else inject_css calls exts)"

fun inject_js :: "string list \<Rightarrow> ext_entry list \<Rightarrow> string list" where
  "inject_js calls [] = calls"
| "inject_js calls (ext # exts) =
     (if truthy (content_js ext)
      then inject_js (calls @ [the (content_js ext)]) exts
      else inject_js calls exts)"

definition inject_extensions :: "catalog \<Rightarrow> string list" where
  "inject_extensions extensions =
     inject_js (inject_css [] (map snd extensions)) (map snd extensions)"

text \<open>
  What the page's script engine makes of a string literal, for the escapes that
  \<open>repr\<close> writes (ECMAScript's \<open>\n\<close>, \<open>\r\<close>, \<open>\t\<close>, \<open>\xhh\<close> and the escaped quote
  and backslash); a literal with a raw line break, with another escape or with
  text after its closing quote is not read. This is the engine's side, kept here to
  say what \<open>style.textContent\<close> receives.
\<close>

definition hexval :: "char \<Rightarrow> nat option" where
  "hexval h =
     (if 48 \<le> code h \<and> code h \<le> 57 then Some (code h - 48)
      else if 97 \<le> code h \<and> code h \<le> 102 then Some (code h - 87)
      else if 65 \<le> code h \<and> code h \<le> 70 then Some (code h - 55)
      else None)"

fun js_chars :: "char \<Rightarrow> string \<Rightarrow> string option" where
  "js_chars q [] = None"
| "js_chars q (c # cs) =
     (if c = q then (if cs = [] then Some [] else None)
      else if c = CHR 0x0A \<or> c = CHR 0x0D then None
      else if c = bslash then
        (case cs of
           [] \<Rightarrow> None
         | e # r \<Rightarrow>
             if e = CHR ''n'' then map_option ((#) (CHR 0x0A)) (js_chars q r)
             else if e = CHR ''r'' then map_option ((#) (CHR 0x0D)) (js_chars q r)
             else if e = CHR ''t'' then map_option ((#) (CHR 0x09)) (js_chars q r)
             else if e = CHR ''x'' then
               (case r of
                  h1 # h2 # r' \<Rightarrow>
                    (case (hexval h1, hexval h2) of
                       (Some a, Some b) \<Rightarrow> map_option ((#) (char_of (16 * a + b))) (js_chars q r')
                     | _ \<Rightarrow> None)
                | _ \<Rightarrow> None)
             else if e = squote \<or> e = dquote \<or> e = bslash
             then map_option ((#) e) (js_chars q r)
             else None)
      else map_option ((#) c) (js_chars q cs))"

definition js_string_value :: "string \<Rightarrow> string option" where
  "js_string_value s =
     (case s of [] \<Rightarrow> None
      | q # rest \<Rightarrow> if q = squote \<or> q = dquote then js_chars q rest else None)"

section \<open>The address bar\<close>

definition HOME_URL :: string where
  "HOME_URL = ''https://duckduckgo.com/''"

text \<open>A \<open>QUrl\<close> built from a string; the parsing is the engine's.\<close>

datatype qurl = QUrl string

definition is_space :: "char \<Rightarrow> bool" where
  "is_space c = ((9 \<le> code c \<and> code c \<le> 13) \<or> (28 \<le> code c \<and> code c \<le> 32)
                 \<or> code c = 133 \<or> code c = 160)"

text \<open>\<open>s.strip()\<close>\<close>

definition strip :: "string \<Rightarrow> string" where
  "strip s = rev (dropWhile is_space (rev (dropWhile is_space s)))"

text \<open>
  \<open>QUrl.toPercentEncoding(text).data().decode()\<close>, as Qt documents it: the UTF-8
  bytes of the text, each one kept if it is a letter, a digit or one of \<open>-._~\<close> and
  written as \<open>%HH\<close> otherwise.
\<close>

definition utf8 :: "char \<Rightarrow> nat list" where
  "utf8 c = (if code c < 128 then [code c] else [192 + code c div 64, 128 + code c mod 64])"

definition unreserved :: "nat \<Rightarrow> bool" where
  "unreserved b = ((65 \<le> b \<and> b \<le> 90) \<or> (97 \<le> b \<and> b \<le> 122) \<or> (48 \<le> b \<and> b \<le> 57)
                   \<or> b = 45 \<or> b = 46 \<or> b = 95 \<or> b = 126)"

definition HEXDIGIT :: "nat \<Rightarrow> char" where
  "HEXDIGIT n = ''0123456789ABCDEF'' ! (n mod 16)"

definition pct_byte :: "nat \<Rightarrow> string" where
  "pct_byte b = (if unreserved b then [char_of b] else [CHR ''%'', HEXDIGIT (b div 16), HEXDIGIT (b mod 16)])"

definition toPercentEncoding :: "string \<Rightarrow> string" where
  "toPercentEncoding s = concat (map pct_byte (concat (map utf8 s)))"

definition normalize_url :: "string \<Rightarrow> qurl" where
  "normalize_url text0 =
     (let text = strip text0 in
      if text = [] then QUrl HOME_URL
      else if \<not> str_in '' '' text \<and> str_in ''.'' text \<and> \<not> str_in ''://'' text
      then QUrl (''https://'' @ text)
      else if \<not> str_in ''://'' text \<and> (str_in '' '' text \<or> \<not> str_in ''.'' text)
      then QUrl (''https://duckduckgo.com/?q='' @ toPercentEncoding text)
      else QUrl text)"

section \<open>Facts about strings\<close>

lemma startswith_iff: "startswith s p \<longleftrightarrow> (\<exists>ys. s = p @ ys)"
  by (induction s p rule: startswith.induct) auto

lemma str_in_iff: "str_in p s \<longleftrightarrow> (\<exists>xs ys. s = xs @ p @ ys)"
proof (induction s)
  case Nil
  then show ?case by auto
next
  case (Cons c cs)
  show ?case
  proof
    assume "str_in p (c # cs)"
    then consider "startswith (c # cs) p" | "str_in p cs" by auto
    then show "\<exists>xs ys. c # cs = xs @ p @ ys"
    proof cases
      case 1
      then obtain ys where "c # cs = p @ ys" by (auto simp: startswith_iff)
      then have "c # cs = [] @ p @ ys" by simp
      then show ?thesis by blast
    next
      case 2
      then obtain xs ys where "cs = xs @ p @ ys" using Cons.IH by auto
      then have "c # cs = (c # xs) @ p @ ys" by simp
      then show ?thesis by blast
    qed
  next
    assume "\<exists>xs ys. c # cs = xs @ p @ ys"
    then obtain xs ys where e: "c # cs = xs @ p @ ys" by blast
    show "str_in p (c # cs)"
    proof (cases xs)
      case Nil
      with e have "startswith (c # cs) p" by (auto simp: startswith_iff)
      then show ?thesis by simp
    next
      case (Cons x xs')
      with e have "cs = xs' @ p @ ys" by simp
      then have "str_in p cs" using Cons.IH by blast
      then show ?thesis by simp
    qed
  qed
qed

lemma block_loop_iff: "block_loop ps url \<longleftrightarrow> (\<exists>p \<in> set ps. str_in p url)"
  by (induction ps) auto

lemma str_in_char: "str_in [c] s \<longleftrightarrow> c \<in> set s"
  by (induction s) auto

lemma lower_char_idem: "lower_char (lower_char c) = lower_char c"
  unfolding lower_char_def is_upper_def code_def by auto

lemma lower_idem: "lower (lower s) = lower s"
  by (simp add: lower_def lower_char_idem)

lemma lower_default_patterns: "map lower default_patterns = default_patterns"
  by code_simp

section \<open>The filter's decision\<close>

lemma interceptRequest_iff:
  "interceptRequest f u \<longleftrightarrow> (\<exists>p \<in> set (patterns f). \<exists>xs ys. lower u = xs @ p @ ys)"
  by (simp add: interceptRequest_def block_loop_iff str_in_iff)

text \<open>
  A filter as its constructor leaves it decides by the lowercased patterns it was
  given, or by the built-in list when it was given none.
\<close>

lemma interceptRequest_init:
  "interceptRequest (interceptor_init ps) u \<longleftrightarrow>
     (\<exists>p \<in> set (py_or ps default_patterns). \<exists>xs ys. lower u = xs @ lower p @ ys)"
  by (simp add: interceptRequest_iff interceptor_init_def)

lemma interceptRequest_no_patterns: "patterns f = [] \<Longrightarrow> \<not> interceptRequest f u"
  by (simp add: interceptRequest_def)

lemma init_patterns_lower: "p \<in> set (patterns (interceptor_init ps)) \<Longrightarrow> lower p = p"
  by (auto simp: interceptor_init_def lower_idem)

lemma window_init_patterns_lower:
  "p \<in> set (patterns (adblock_interceptor (window_init s))) \<Longrightarrow> lower p = p"
  by (auto simp: window_init_def Let_def dest: init_patterns_lower)

lemma toggle_off_patterns:
  "adblock_enabled w \<Longrightarrow> patterns (adblock_interceptor (toggle_adblock w)) = []"
  by (simp add: toggle_adblock_def Let_def)

lemma toggle_on_patterns:
  "\<not> adblock_enabled w \<Longrightarrow>
   patterns (adblock_interceptor (toggle_adblock w)) =
     (if value_patterns (store w) \<noteq> [] then value_patterns (store w)
      else patterns (adblock_interceptor w))"
  by (simp add: toggle_adblock_def Let_def value_patterns_def)

lemma toggle_twice_patterns:
  "adblock_enabled w \<Longrightarrow>
   patterns (adblock_interceptor (toggle_adblock (toggle_adblock w))) = value_patterns (store w)"
  by (simp add: toggle_adblock_def Let_def value_patterns_def)

text \<open>
  C1. The claim: the decision is to block exactly when some pattern of the filter,
  lowercased, occurs in the lowercased URL, and it is to allow whenever the filter
  holds no pattern or is disabled. The decision of a filter as constructed is that
  one (\<open>interceptRequest_init\<close>), and a filter with no pattern allows everything
  (\<open>interceptRequest_no_patterns\<close>). The disabled flag is not looked at when the window
  starts: switched off, closed and started again, the window is disabled and its
  filter holds the built-in list and blocks.
\<close>

theorem C1_disabled_at_start_blocks:
  "adblock_enabled (window_init (closeEvent (toggle_adblock (window_init empty_settings)))) = False
   \<and> patterns (adblock_interceptor
        (window_init (closeEvent (toggle_adblock (window_init empty_settings))))) = default_patterns
   \<and> interceptRequest
        (adblock_interceptor (window_init (closeEvent (toggle_adblock (window_init empty_settings)))))
        ''https://doubleclick.net/ad.js'' = True"
  by code_simp

text \<open>
  C2. The claim: switching ad-block off and on again leaves the active pattern list
  as it was before, the built-in list when no patterns were ever saved. Switching on
  reads the saved list and keeps the emptied list when nothing is saved: from a fresh
  store the window starts with the built-in list and has no pattern after the two
  toggles.
\<close>

theorem C2_toggle_twice_fresh_store:
  "patterns (adblock_interceptor (window_init empty_settings)) = default_patterns
   \<and> adblock_enabled (window_init empty_settings) = True
   \<and> adblock_enabled (toggle_adblock (toggle_adblock (window_init empty_settings))) = True
   \<and> patterns (adblock_interceptor (toggle_adblock (toggle_adblock (window_init empty_settings)))) = []"
  by code_simp


section \<open>Bookmarks: saving and loading\<close>












section \<open>The address bar: what is loaded\<close>

lemma strip_empty_iff: "strip s = [] \<longleftrightarrow> (\<forall>c \<in> set s. is_space c)"
proof
  assume "strip s = []"
  then have "dropWhile is_space (rev (dropWhile is_space s)) = []" by (simp add: strip_def)
  then have "\<forall>c \<in> set (rev (dropWhile is_space s)). is_space c"
    by simp
  then have "\<forall>c \<in> set (dropWhile is_space s). is_space c" by simp
  then have "dropWhile is_space s = []"
    by (metis hd_dropWhile list.set_sel(1))
  then show "\<forall>c \<in> set s. is_space c" by simp
next
  assume "\<forall>c \<in> set s. is_space c"
  then have d: "dropWhile is_space s = []" by simp
  show "strip s = []" unfolding strip_def d by simp
qed

lemma normalize_url_cases:
  "normalize_url t =
     (if strip t = [] then QUrl HOME_URL
      else if str_in ''://'' (strip t) then QUrl (strip t)
      else if CHR '' '' \<notin> set (strip t) \<and> CHR ''.'' \<in> set (strip t) then QUrl (''https://'' @ strip t)
      else QUrl (''https://duckduckgo.com/?q='' @ toPercentEncoding (strip t)))"
  by (simp add: normalize_url_def Let_def str_in_char)

text \<open>
  C10, as amended. \<open>normalize_url\<close> strips the whitespace around its input first, and
  the cases are those of the stripped text \<open>s\<close>: an input that is empty or all
  whitespace gives the home URL; when \<open>s\<close> has no space, has a \<open>.\<close> and has no
  \<open>://\<close>, the result is \<open>https://\<close> followed by \<open>s\<close>; when \<open>s\<close> is not empty, has no
  \<open>://\<close> and has a space or no \<open>.\<close>, the result is the duckduckgo search URL with the
  percent-encoded \<open>s\<close> as its query; when \<open>s\<close> has a \<open>://\<close>, the result is \<open>s\<close> as it is.
\<close>

theorem C10_normalize_url:
  "((\<forall>c \<in> set t. is_space c) \<longrightarrow> normalize_url t = QUrl HOME_URL)
   \<and> (CHR '' '' \<notin> set (strip t) \<and> CHR ''.'' \<in> set (strip t) \<and> \<not> str_in ''://'' (strip t)
        \<longrightarrow> normalize_url t = QUrl (''https://'' @ strip t))
   \<and> (strip t \<noteq> [] \<and> \<not> str_in ''://'' (strip t)
          \<and> (CHR '' '' \<in> set (strip t) \<or> CHR ''.'' \<notin> set (strip t))
        \<longrightarrow> normalize_url t = QUrl (''https://duckduckgo.com/?q='' @ toPercentEncoding (strip t)))
   \<and> (strip t \<noteq> [] \<and> str_in ''://'' (strip t) \<longrightarrow> normalize_url t = QUrl (strip t))"
proof -
  have "strip t \<noteq> []" if "CHR ''.'' \<in> set (strip t)"
    using that by auto
  then show ?thesis
    by (auto simp: normalize_url_cases strip_empty_iff)
qed

theorem C10_normalize_url_witness:
  "normalize_url [CHR '' '', CHR 0x09, CHR '' ''] = QUrl ''https://duckduckgo.com/''
   \<and> normalize_url '' example.org '' = QUrl ''https://example.org''
   \<and> normalize_url '' hello world '' = QUrl ''https://duckduckgo.com/?q=hello%20world''
   \<and> normalize_url '' http://x y '' = QUrl ''http://x y''"
proof -
  have s1: "\<forall>c \<in> set [CHR '' '', CHR 0x09, CHR '' '']. is_space c" by code_simp
  have s2: "strip '' example.org '' = ''example.org''" by code_simp
  have s3: "strip '' hello world '' = ''hello world''" by code_simp
  have s4: "strip '' http://x y '' = ''http://x y''" by code_simp
  have p3: "toPercentEncoding ''hello world'' = ''hello%20world''" by code_simp
  have h2: "\<not> str_in ''://'' ''example.org''" by code_simp
  have h3: "\<not> str_in ''://'' ''hello world''" by code_simp
  have h4: "str_in ''://'' ''http://x y''" by code_simp
  have "normalize_url [CHR '' '', CHR 0x09, CHR '' ''] = QUrl HOME_URL"
    using C10_normalize_url [of "[CHR '' '', CHR 0x09, CHR '' '']"] s1 by blast
  moreover have "normalize_url '' example.org '' = QUrl (''https://'' @ ''example.org'')"
    using C10_normalize_url [of "'' example.org ''"] h2 unfolding s2 by simp
  moreover have "normalize_url '' hello world ''
      = QUrl (''https://duckduckgo.com/?q='' @ toPercentEncoding ''hello world'')"
    using C10_normalize_url [of "'' hello world ''"] h3 unfolding s3 by simp
  moreover have "normalize_url '' http://x y '' = QUrl ''http://x y''"
    using C10_normalize_url [of "'' http://x y ''"] h4 unfolding s4 by simp
  ultimately show ?thesis by (simp add: HOME_URL_def p3)
qed

text \<open>
  C10 as stated fails on an input with whitespace around it: \<open>" a.b"\<close> has no
  \<open>://\<close> and contains a space, and the result is \<open>https://a.b\<close>, not a search URL
  for the input.
\<close>

theorem C10_leading_space_counterexample:
  "str_in '' '' '' a.b'' \<and> \<not> str_in ''://'' '' a.b''
   \<and> normalize_url '' a.b'' = QUrl ''https://a.b''
   \<and> normalize_url '' a.b'' \<noteq> QUrl (''https://duckduckgo.com/?q='' @ toPercentEncoding '' a.b'')"
  by code_simp

section \<open>The scan of the extensions directory\<close>













text \<open>
  A manifest that parses to something other than an object is not caught by the
  \<open>try\<close>: the \<open>get\<close> after it raises and the scan ends there.
\<close>

lemma non_object_manifest_aborts:
  assumes "is_dir sub" and "manifest_json sub = Content j" and "\<forall>kvs. j \<noteq> JDict kvs"
  shows "load_loop_ext c (sub # rest) = Inl AttributeError"
  using assms by (cases j) (simp_all add: load_one_def resolve_def read_manifest_def)









section \<open>Injection: the calls and their order\<close>

lemma hexval_hexdigit: "n < 16 \<Longrightarrow> hexval (hexdigit n) = Some n"
proof -
  have "\<forall>n \<in> set [0..<16]. hexval (hexdigit n) = Some n" by code_simp
  then show "n < 16 \<Longrightarrow> hexval (hexdigit n) = Some n" by simp
qed

lemma inject_css_map:
  "inject_css calls exts =
     calls @ map (\<lambda>e. css_script (the (styles_css e))) (filter (\<lambda>e. truthy (styles_css e)) exts)"
  by (induction exts arbitrary: calls) auto

lemma inject_js_map:
  "inject_js calls exts =
     calls @ map (\<lambda>e. the (content_js e)) (filter (\<lambda>e. truthy (content_js e)) exts)"
  by (induction exts arbitrary: calls) auto



lemma code_lt: "code c < 256"
  by (simp add: code_def)

lemma char_of_code: "char_of (code c) = c"
  by (simp add: code_def)

lemma js_step_plain:
  "c \<noteq> q \<Longrightarrow> c \<noteq> bslash \<Longrightarrow> c \<noteq> CHR 0x0A \<Longrightarrow> c \<noteq> CHR 0x0D \<Longrightarrow>
     js_chars q (c # rest) = map_option ((#) c) (js_chars q rest)"
  by simp

lemma js_step_hex:
  assumes "bslash \<noteq> q"
  shows "js_chars q ([bslash, CHR ''x'', hexdigit (code c div 16), hexdigit (code c mod 16)] @ rest)
           = map_option ((#) c) (js_chars q rest)"
proof -
  have a: "hexval (hexdigit (code c div 16)) = Some (code c div 16)"
    using code_lt [of c] by (intro hexval_hexdigit) simp
  have b: "hexval (hexdigit (code c mod 16)) = Some (code c mod 16)"
    by (intro hexval_hexdigit) simp
  show ?thesis using assms by (simp add: a b char_of_code bslash_def)
qed

lemma not_printable_nl: "\<not> is_printable (CHR 0x0A)" "\<not> is_printable (CHR 0x0D)"
  by (simp_all add: is_printable_def code_def)

lemma js_step_repr:
  assumes "q = squote \<or> q = dquote"
  shows "js_chars q (repr_char q c @ rest) = map_option ((#) c) (js_chars q rest)"
proof -
  have q: "bslash \<noteq> q" "q \<noteq> CHR ''n''" "q \<noteq> CHR ''r''" "q \<noteq> CHR ''t''" "q \<noteq> CHR ''x''"
    "q \<noteq> CHR 0x0A" "q \<noteq> CHR 0x0D"
    using assms by (auto simp: bslash_def squote_def dquote_def)
  consider "c = q" | "c \<noteq> q" "c = bslash" | "c \<noteq> q" "c \<noteq> bslash" "c = CHR 0x09"
    | "c \<noteq> q" "c \<noteq> bslash" "c = CHR 0x0A" | "c \<noteq> q" "c \<noteq> bslash" "c = CHR 0x0D"
    | "c \<noteq> q" "c \<noteq> bslash" "c \<noteq> CHR 0x09" "c \<noteq> CHR 0x0A" "c \<noteq> CHR 0x0D" "is_printable c"
    | "c \<noteq> q" "c \<noteq> bslash" "c \<noteq> CHR 0x09" "c \<noteq> CHR 0x0A" "c \<noteq> CHR 0x0D" "\<not> is_printable c"
    by blast
  then show ?thesis
  proof cases
    case 1
    then show ?thesis using q assms by (auto simp: repr_char_def bslash_def squote_def dquote_def)
  next
    case 2
    then show ?thesis using q by (simp add: repr_char_def bslash_def)
  next
    case 3
    then show ?thesis using q by (simp add: repr_char_def bslash_def)
  next
    case 4
    then show ?thesis using q by (simp add: repr_char_def bslash_def)
  next
    case 5
    then show ?thesis using q by (simp add: repr_char_def bslash_def)
  next
    case 6
    then show ?thesis by (simp add: repr_char_def)
  next
    case 7
    have "repr_char q c = [bslash, CHR ''x'', hexdigit (code c div 16), hexdigit (code c mod 16)]"
      using 7 by (simp add: repr_char_def)
    then show ?thesis using js_step_hex [OF q(1), of c rest] by simp
  qed
qed

lemma js_chars_repr:
  assumes "q = squote \<or> q = dquote"
  shows "js_chars q (concat (map (repr_char q) s) @ [q]) = Some s"
proof (induction s)
  case Nil
  then show ?case by simp
next
  case (Cons c s)
  have "js_chars q (concat (map (repr_char q) (c # s)) @ [q])
      = js_chars q (repr_char q c @ (concat (map (repr_char q) s) @ [q]))" by simp
  also have "\<dots> = map_option ((#) c) (js_chars q (concat (map (repr_char q) s) @ [q]))"
    by (rule js_step_repr [OF assms])
  finally show ?case using Cons.IH by simp
qed

lemma js_string_value_repr: "js_string_value (py_repr css) = Some css"
proof -
  have "repr_quote css = squote \<or> repr_quote css = dquote" by (simp add: repr_quote_def)
  then show ?thesis
    using js_chars_repr [of "repr_quote css" css]
    by (auto simp: js_string_value_def py_repr_def Let_def)
qed

text \<open>
  The calls of one pass: a wrapper for every non-empty style sheet, in catalog
  order, then every non-empty script, in catalog order.
\<close>

lemma inject_extensions_calls:
  "inject_extensions extensions =
     map (\<lambda>e. css_script (the (styles_css e)))
       (filter (\<lambda>e. truthy (styles_css e)) (map snd extensions))
     @ map (\<lambda>e. the (content_js e)) (filter (\<lambda>e. truthy (content_js e)) (map snd extensions))"
  by (simp add: inject_extensions_def inject_css_map inject_js_map)



end
